theory Spec2Isabelle
  imports Complex_Main
begin

section \<open>Ethereum price alert bot: a model of main.py\<close>

text \<open>
  The bot polls a quote API, keeps a set of subscribers and two price variables in module
  globals, and pushes an alert to every subscriber when the price has moved by at least
  a configured threshold since the last alert.

  Modelling decisions:
  \<^item> Python floats are modelled as \<^typ>\<open>real\<close>, so every price and the threshold are
    finite numbers. Rounding is not modelled, and the values \<open>inf\<close> and \<open>nan\<close>, which
    \<open>float(price)\<close> returns for a reply such as \<open>1e400\<close> or \<open>NaN\<close> and which the code
    does not reject, have no counterpart: every property below is about runs in which
    all fetched prices are finite.
  \<^item> The module globals \<open>user_ids\<close>, \<open>last_eth_price\<close> and \<open>last_notification_price\<close>
    are fields of a state record that every function takes and returns.
  \<^item> The two external collaborators are inputs: the HTTP reply of one fetch is an
    \<open>api_response\<close>, and the outcome of \<open>bot.send_message\<close> for each recipient is a
    \<open>channel\<close>.
  \<^item> Message texts are values of a datatype holding the quantities the text is formatted
    from; the time stamp in the texts and the log lines are left out.
  \<^item> \<open>asyncio.sleep\<close> is not modelled; the handlers and the monitor iteration run one
    after the other, never interleaved inside one another.
\<close>

subsection \<open>Configuration and state\<close>

text \<open>\<open>CHECK_INTERVAL = int(os.getenv(...))\<close> and \<open>PRICE_THRESHOLD = float(os.getenv(...))\<close>:
  any integer and any float can be configured.\<close>

record config =
  CHECK_INTERVAL :: int
  PRICE_THRESHOLD :: real

text \<open>The texts the bot sends. \<open>PriceAlert rose magnitude price change\<close> is the alert
  of \<open>send_price_notification\<close>: \<open>rose\<close> selects the emoji and the verb
  (\<open>change > 0\<close>), \<open>magnitude\<close> is \<open>abs(change)\<close>.\<close>

datatype message =
    Welcome
  | CurrentPrice real
  | FetchFailed
  | StatusReport "real option" "real option" nat int real
  | Unsubscribed
  | PriceAlert bool real real real

text \<open>The globals of the module, and two logs used to state what the bot did:
  \<open>dispatched\<close> records every call \<open>send_price_notification(price, change)\<close>,
  \<open>outbox\<close> every \<open>bot.send_message\<close> that returned without raising.\<close>

record bot_state =
  user_ids :: "int set"
  last_eth_price :: "real option"
  last_notification_price :: "real option"
  dispatched :: "(real \<times> real) list"
  outbox :: "(int \<times> message) list"

definition initial_state :: bot_state where
  "initial_state =
     \<lparr>user_ids = {}, last_eth_price = None, last_notification_price = None,
      dispatched = [], outbox = []\<rparr>"

subsection \<open>EthereumPriceTracker.get_eth_price\<close>

text \<open>What one call of \<open>session.get\<close> comes to. \<open>RequestRaised\<close>: creating the session
  or the request raised. \<open>Response status usd\<close>: a reply with that status, where \<open>usd\<close>
  is the value of \<open>float(data['ethereum']['usd'])\<close>, a finite float, or \<open>None\<close> when
  decoding the body, the lookup or the conversion raises. A reply whose conversion gives
  \<open>inf\<close> or \<open>nan\<close> is not represented.\<close>

datatype api_response = RequestRaised | Response nat "real option"

fun get_eth_price :: "api_response \<Rightarrow> real option" where
  "get_eth_price RequestRaised = None"
| "get_eth_price (Response status usd) =
     (if status = 200
      then (case usd of Some price \<Rightarrow> Some price | None \<Rightarrow> None)
      else None)"

subsection \<open>Python truthiness and string search\<close>

text \<open>\<open>if current_price:\<close> on a value that is \<open>None\<close> or a float: \<open>None\<close> and \<open>0.0\<close>
  are false, every other float is true.\<close>

fun truthy :: "real option \<Rightarrow> bool" where
  "truthy None = False"
| "truthy (Some x) = (x \<noteq> 0)"

text \<open>\<open>str.lower\<close> on ASCII text.\<close>

definition lower_char :: "char \<Rightarrow> char" where
  "lower_char c =
     (case map_of (zip ''ABCDEFGHIJKLMNOPQRSTUVWXYZ'' ''abcdefghijklmnopqrstuvwxyz'') c of
        Some l \<Rightarrow> l
      | None \<Rightarrow> c)"

definition lower :: "string \<Rightarrow> string" where
  "lower s = map lower_char s"

fun startswith :: "string \<Rightarrow> string \<Rightarrow> bool" where
  "startswith [] hay = True"
| "startswith (n # ns) [] = False"
| "startswith (n # ns) (h # hs) = (n = h \<and> startswith ns hs)"

text \<open>\<open>needle in hay\<close> for strings.\<close>

fun str_contains :: "string \<Rightarrow> string \<Rightarrow> bool" where
  "str_contains needle [] = (needle = [])"
| "str_contains needle (h # hs) = (startswith needle (h # hs) \<or> str_contains needle hs)"

subsection \<open>Command handlers\<close>

text \<open>Each handler takes the sender's id (or the reply of the fetch it makes) and returns
  the text it passes to \<open>message.answer\<close> with the new state.\<close>

definition start_handler :: "int \<Rightarrow> bot_state \<Rightarrow> message \<times> bot_state" where
  "start_handler uid s = (Welcome, s\<lparr>user_ids := insert uid (user_ids s)\<rparr>)"

definition price_handler :: "api_response \<Rightarrow> bot_state \<Rightarrow> message \<times> bot_state" where
  "price_handler r s =
     (let current_price = get_eth_price r in
      if truthy current_price then (CurrentPrice (the current_price), s)
      else (FetchFailed, s))"

definition status_handler :: "config \<Rightarrow> bot_state \<Rightarrow> message \<times> bot_state" where
  "status_handler cfg s =
     (StatusReport
        (if truthy (last_eth_price s) then last_eth_price s else None)
        (if truthy (last_notification_price s) then last_notification_price s else None)
        (card (user_ids s))
        (CHECK_INTERVAL cfg div 60)
        (PRICE_THRESHOLD cfg),
      s)"

text \<open>\<open>set.discard\<close>, unlike \<open>set.remove\<close>, has no \<open>KeyError\<close> branch.\<close>

definition stop_handler :: "int \<Rightarrow> bot_state \<Rightarrow> message \<times> bot_state" where
  "stop_handler uid s = (Unsubscribed, s\<lparr>user_ids := user_ids s - {uid}\<rparr>)"

subsection \<open>send_price_notification\<close>

text \<open>\<open>bot.send_message(user_id, text)\<close> returns, or raises an exception \<open>e\<close> of which
  the code reads \<open>str(e)\<close>.\<close>

datatype send_result = Delivered | Raised string

type_synonym channel = "int \<Rightarrow> send_result"

definition bot_was_blocked :: "string \<Rightarrow> bool" where
  "bot_was_blocked e = str_contains ''bot was blocked'' (lower e)"

text \<open>The body of the \<open>for\<close> loop, for one recipient.\<close>

definition send_one :: "channel \<Rightarrow> message \<Rightarrow> int \<Rightarrow> bot_state \<Rightarrow> bot_state" where
  "send_one ch message_text user_id s =
     (case ch user_id of
        Delivered \<Rightarrow> s\<lparr>outbox := outbox s @ [(user_id, message_text)]\<rparr>
      | Raised e \<Rightarrow>
          if bot_was_blocked e then s\<lparr>user_ids := user_ids s - {user_id}\<rparr> else s)"

text \<open>The \<open>for\<close> loop over \<open>user_ids.copy()\<close>. The copy is a list: the elements of the set
  in the order the iteration visits them, which Python does not specify.\<close>

fun send_all :: "channel \<Rightarrow> message \<Rightarrow> int list \<Rightarrow> bot_state \<Rightarrow> bot_state" where
  "send_all ch message_text [] s = s"
| "send_all ch message_text (user_id # rest) s =
     send_all ch message_text rest (send_one ch message_text user_id s)"

definition send_price_notification ::
  "channel \<Rightarrow> int list \<Rightarrow> real \<Rightarrow> real \<Rightarrow> bot_state \<Rightarrow> bot_state" where
  "send_price_notification ch snapshot price change s =
     (let s0 = s\<lparr>dispatched := dispatched s @ [(price, change)]\<rparr> in
      if user_ids s0 = {} then s0
      else send_all ch (PriceAlert (change > 0) \<bar>change\<bar> price change) snapshot s0)"

text \<open>A snapshot of the registry: every subscriber once, in some order.\<close>

definition snapshot_of :: "int list \<Rightarrow> bot_state \<Rightarrow> bool" where
  "snapshot_of snapshot s = (distinct snapshot \<and> set snapshot = user_ids s)"

subsection \<open>price_monitoring\<close>

text \<open>One pass through the body of \<open>while True\<close>. Nothing in the body raises in this
  model, so the \<open>except\<close> branch, which only logs, has no counterpart.\<close>

definition monitor_iteration ::
  "config \<Rightarrow> api_response \<Rightarrow> channel \<Rightarrow> int list \<Rightarrow> bot_state \<Rightarrow> bot_state" where
  "monitor_iteration cfg r ch snapshot s =
     (case get_eth_price r of
        None \<Rightarrow> s
      | Some current_price \<Rightarrow>
          (let s1 =
             (case last_notification_price s of
                Some reference \<Rightarrow>
                  (let price_change = current_price - reference in
                   if \<bar>price_change\<bar> \<ge> PRICE_THRESHOLD cfg
                   then (send_price_notification ch snapshot current_price price_change s)
                          \<lparr>last_notification_price := Some current_price\<rparr>
                   else s)
              | None \<Rightarrow> s\<lparr>last_notification_price := Some current_price\<rparr>)
           in s1\<lparr>last_eth_price := Some current_price\<rparr>))"

subsection \<open>The running bot\<close>

text \<open>What happens to the process: a tick of the monitor loop (with the reply of its
  fetch, the behaviour of the messaging channel during it and the iteration order of the
  registry copy), or one of the four commands.\<close>

datatype event =
    Tick api_response channel "int list"
  | Start int
  | Price api_response
  | Status
  | Stop int

fun step :: "config \<Rightarrow> event \<Rightarrow> bot_state \<Rightarrow> bot_state" where
  "step cfg (Tick r ch snapshot) s = monitor_iteration cfg r ch snapshot s"
| "step cfg (Start uid) s = snd (start_handler uid s)"
| "step cfg (Price r) s = snd (price_handler r s)"
| "step cfg Status s = snd (status_handler cfg s)"
| "step cfg (Stop uid) s = snd (stop_handler uid s)"

text \<open>The loop never ends by itself; \<open>run\<close> is the state after a finite prefix of events.\<close>

fun run :: "config \<Rightarrow> event list \<Rightarrow> bot_state \<Rightarrow> bot_state" where
  "run cfg [] s = s"
| "run cfg (ev # evs) s = run cfg evs (step cfg ev s)"

text \<open>The price a tick fetched, if the event is a tick whose fetch succeeded.\<close>

fun fetched :: "event \<Rightarrow> real option" where
  "fetched (Tick r ch snapshot) = get_eth_price r"
| "fetched ev = None"

text \<open>The invariant of the data model: once the reference price is set, the last seen
  price is within the threshold of it.\<close>

definition within_threshold :: "config \<Rightarrow> bot_state \<Rightarrow> bool" where
  "within_threshold cfg s =
     (case last_notification_price s of
        None \<Rightarrow> True
      | Some reference \<Rightarrow>
          (case last_eth_price s of
             None \<Rightarrow> False
           | Some seen \<Rightarrow> \<bar>seen - reference\<bar> < PRICE_THRESHOLD cfg))"

text \<open>Example environments: a channel that delivers to everybody, and one on which
  recipient 1 has blocked the bot and recipient 2 times out.\<close>

definition all_delivered :: channel where
  "all_delivered user_id = Delivered"

definition flaky :: channel where
  "flaky user_id =
     (if user_id = 1 then Raised ''Forbidden: Bot was blocked by the user''
      else if user_id = 2 then Raised ''Request timeout error''
      else Delivered)"

section \<open>Properties\<close>

subsection \<open>The monitor iteration\<close>

lemma get_eth_price_ok [simp]: "get_eth_price (Response 200 (Some p)) = Some p"
  by simp

lemma dispatched_send_one [simp]: "dispatched (send_one ch m u s) = dispatched s"
  by (simp add: send_one_def split: send_result.split)

lemma prices_send_one [simp]:
  "last_eth_price (send_one ch m u s) = last_eth_price s"
  "last_notification_price (send_one ch m u s) = last_notification_price s"
  by (simp_all add: send_one_def split: send_result.split)

lemma dispatched_send_all [simp]: "dispatched (send_all ch m us s) = dispatched s"
  by (induction us arbitrary: s) simp_all

lemma prices_send_all [simp]:
  "last_eth_price (send_all ch m us s) = last_eth_price s"
  "last_notification_price (send_all ch m us s) = last_notification_price s"
  by (induction us arbitrary: s) simp_all

lemma dispatched_send_price_notification [simp]:
  "dispatched (send_price_notification ch snap p c s) = dispatched s @ [(p, c)]"
  by (simp add: send_price_notification_def Let_def)

lemma prices_send_price_notification [simp]:
  "last_eth_price (send_price_notification ch snap p c s) = last_eth_price s"
  "last_notification_price (send_price_notification ch snap p c s) = last_notification_price s"
  by (simp_all add: send_price_notification_def Let_def)

text \<open>
  C1. When a reference price \<open>p1\<close> is established and the fetch returns \<open>p2\<close> with
  \<open>abs(p2 - p1) >= threshold\<close> (a move of exactly the threshold included), the iteration
  calls \<open>send_price_notification\<close> exactly once, with price \<open>p2\<close> and change \<open>p2 - p1\<close>,
  and afterwards both the reference price and the last seen price are \<open>p2\<close>.
\<close>

theorem monitor_notifies_at_threshold:
  assumes "last_notification_price s = Some p1"
    and "get_eth_price r = Some p2"
    and "\<bar>p2 - p1\<bar> \<ge> PRICE_THRESHOLD cfg"
  shows "dispatched (monitor_iteration cfg r ch snapshot s) = dispatched s @ [(p2, p2 - p1)]
    \<and> last_notification_price (monitor_iteration cfg r ch snapshot s) = Some p2
    \<and> last_eth_price (monitor_iteration cfg r ch snapshot s) = Some p2"
  using assms by (simp add: monitor_iteration_def Let_def)

theorem monitor_notifies_at_threshold_witness:
  "dispatched (monitor_iteration \<lparr>CHECK_INTERVAL = 300, PRICE_THRESHOLD = 50\<rparr>
       (Response 200 (Some 3050)) all_delivered []
       (initial_state\<lparr>last_notification_price := Some 3000\<rparr>)) = [(3050, 50)]
   \<and> last_notification_price (monitor_iteration \<lparr>CHECK_INTERVAL = 300, PRICE_THRESHOLD = 50\<rparr>
       (Response 200 (Some 3050)) all_delivered []
       (initial_state\<lparr>last_notification_price := Some 3000\<rparr>)) = Some 3050
   \<and> last_eth_price (monitor_iteration \<lparr>CHECK_INTERVAL = 300, PRICE_THRESHOLD = 50\<rparr>
       (Response 200 (Some 3050)) all_delivered []
       (initial_state\<lparr>last_notification_price := Some 3000\<rparr>)) = Some 3050"
  using monitor_notifies_at_threshold
    [of "initial_state\<lparr>last_notification_price := Some 3000\<rparr>" 3000
        "Response 200 (Some 3050)" 3050 "\<lparr>CHECK_INTERVAL = 300, PRICE_THRESHOLD = 50\<rparr>"
        all_delivered "[]"]
  by (simp add: initial_state_def)

text \<open>
  C2. When a reference price \<open>p1\<close> is established and the fetch returns \<open>p2\<close> with
  \<open>abs(p2 - p1) < threshold\<close>, the iteration does not call the dispatch and sends
  nothing, the reference price stays \<open>p1\<close>, and the last seen price becomes \<open>p2\<close>.
\<close>

theorem monitor_quiet_below_threshold:
  assumes "last_notification_price s = Some p1"
    and "get_eth_price r = Some p2"
    and "\<bar>p2 - p1\<bar> < PRICE_THRESHOLD cfg"
  shows "dispatched (monitor_iteration cfg r ch snapshot s) = dispatched s
    \<and> outbox (monitor_iteration cfg r ch snapshot s) = outbox s
    \<and> user_ids (monitor_iteration cfg r ch snapshot s) = user_ids s
    \<and> last_notification_price (monitor_iteration cfg r ch snapshot s) = Some p1
    \<and> last_eth_price (monitor_iteration cfg r ch snapshot s) = Some p2"
  using assms by (simp add: monitor_iteration_def Let_def)

theorem monitor_quiet_below_threshold_witness:
  "\<bar>3010 - 3000\<bar> < PRICE_THRESHOLD \<lparr>CHECK_INTERVAL = 300, PRICE_THRESHOLD = 50\<rparr>
   \<and> dispatched (monitor_iteration \<lparr>CHECK_INTERVAL = 300, PRICE_THRESHOLD = 50\<rparr>
       (Response 200 (Some 3010)) all_delivered [7]
       (initial_state\<lparr>user_ids := {7}, last_notification_price := Some 3000\<rparr>)) = []
   \<and> outbox (monitor_iteration \<lparr>CHECK_INTERVAL = 300, PRICE_THRESHOLD = 50\<rparr>
       (Response 200 (Some 3010)) all_delivered [7]
       (initial_state\<lparr>user_ids := {7}, last_notification_price := Some 3000\<rparr>)) = []
   \<and> last_notification_price (monitor_iteration \<lparr>CHECK_INTERVAL = 300, PRICE_THRESHOLD = 50\<rparr>
       (Response 200 (Some 3010)) all_delivered [7]
       (initial_state\<lparr>user_ids := {7}, last_notification_price := Some 3000\<rparr>)) = Some 3000
   \<and> last_eth_price (monitor_iteration \<lparr>CHECK_INTERVAL = 300, PRICE_THRESHOLD = 50\<rparr>
       (Response 200 (Some 3010)) all_delivered [7]
       (initial_state\<lparr>user_ids := {7}, last_notification_price := Some 3000\<rparr>)) = Some 3010"
  using monitor_quiet_below_threshold
    [of "initial_state\<lparr>user_ids := {7}, last_notification_price := Some 3000\<rparr>" 3000
        "Response 200 (Some 3010)" 3010 "\<lparr>CHECK_INTERVAL = 300, PRICE_THRESHOLD = 50\<rparr>"
        all_delivered "[7]"]
  by (simp add: initial_state_def)

subsection \<open>Runs of the bot\<close>

lemma run_append: "run cfg (evs @ evs') s = run cfg evs' (run cfg evs s)"
  by (induction evs arbitrary: s) simp_all

lemma monitor_iteration_failed: "get_eth_price r = None \<Longrightarrow> monitor_iteration cfg r ch snapshot s = s"
  by (simp add: monitor_iteration_def)

lemma monitor_iteration_baseline:
  "last_notification_price s = None \<Longrightarrow> get_eth_price r = Some p \<Longrightarrow>
   monitor_iteration cfg r ch snapshot s =
     s\<lparr>last_notification_price := Some p, last_eth_price := Some p\<rparr>"
  by (simp add: monitor_iteration_def)

lemma step_command_prices:
  "fetched ev = None \<Longrightarrow>
   dispatched (step cfg ev s) = dispatched s
   \<and> outbox (step cfg ev s) = outbox s
   \<and> last_notification_price (step cfg ev s) = last_notification_price s
   \<and> last_eth_price (step cfg ev s) = last_eth_price s"
  by (cases ev)
     (simp_all add: monitor_iteration_failed start_handler_def price_handler_def
        status_handler_def stop_handler_def Let_def)

lemma run_without_fetch:
  "\<forall>ev \<in> set evs. fetched ev = None \<Longrightarrow>
   dispatched (run cfg evs s) = dispatched s
   \<and> outbox (run cfg evs s) = outbox s
   \<and> last_notification_price (run cfg evs s) = last_notification_price s
   \<and> last_eth_price (run cfg evs s) = last_eth_price s"
proof (induction evs arbitrary: s)
  case Nil
  show ?case by simp
next
  case (Cons ev evs)
  from Cons.prems have ev: "fetched ev = None" and rest: "\<forall>ev \<in> set evs. fetched ev = None"
    by simp_all
  from Cons.IH [OF rest, of "step cfg ev s"] step_command_prices [OF ev, of cfg s]
  show ?case by simp
qed

text \<open>
  C3. Whatever the commands and failed fetches before it, no notification is sent before
  the first successful fetch: as long as no tick has fetched a price, the dispatch has
  not been called, nothing has been sent and the reference price is unset. The first
  successful fetch, of \<open>p\<close>, sets the reference price to \<open>p\<close>, again without calling the
  dispatch or sending anything.
\<close>

theorem no_notification_before_baseline:
  assumes "last_notification_price s = None"
    and "\<forall>ev \<in> set evs. fetched ev = None"
    and "get_eth_price r = Some p"
  shows "dispatched (run cfg evs s) = dispatched s
    \<and> outbox (run cfg evs s) = outbox s
    \<and> last_notification_price (run cfg evs s) = None
    \<and> dispatched (run cfg (evs @ [Tick r ch snapshot]) s) = dispatched s
    \<and> outbox (run cfg (evs @ [Tick r ch snapshot]) s) = outbox s
    \<and> last_notification_price (run cfg (evs @ [Tick r ch snapshot]) s) = Some p"
proof -
  have before: "dispatched (run cfg evs s) = dispatched s"
    "outbox (run cfg evs s) = outbox s"
    "last_notification_price (run cfg evs s) = None"
    using run_without_fetch [OF assms(2), of cfg s] assms(1) by simp_all
  have "run cfg (evs @ [Tick r ch snapshot]) s =
      (run cfg evs s)\<lparr>last_notification_price := Some p, last_eth_price := Some p\<rparr>"
    using monitor_iteration_baseline [OF before(3) assms(3)] by (simp add: run_append)
  with before show ?thesis by simp
qed

theorem no_notification_before_baseline_witness:
  "dispatched (run \<lparr>CHECK_INTERVAL = 300, PRICE_THRESHOLD = 50\<rparr>
      [Start 7, Tick (Response 503 None) all_delivered [7], Tick RequestRaised all_delivered [7]]
      initial_state) = []
   \<and> outbox (run \<lparr>CHECK_INTERVAL = 300, PRICE_THRESHOLD = 50\<rparr>
      [Start 7, Tick (Response 503 None) all_delivered [7], Tick RequestRaised all_delivered [7]]
      initial_state) = []
   \<and> last_notification_price (run \<lparr>CHECK_INTERVAL = 300, PRICE_THRESHOLD = 50\<rparr>
      ([Start 7, Tick (Response 503 None) all_delivered [7], Tick RequestRaised all_delivered [7]]
         @ [Tick (Response 200 (Some 3000)) all_delivered [7]])
      initial_state) = Some 3000
   \<and> outbox (run \<lparr>CHECK_INTERVAL = 300, PRICE_THRESHOLD = 50\<rparr>
      ([Start 7, Tick (Response 503 None) all_delivered [7], Tick RequestRaised all_delivered [7]]
         @ [Tick (Response 200 (Some 3000)) all_delivered [7]])
      initial_state) = []"
  using no_notification_before_baseline
    [of initial_state
        "[Start 7, Tick (Response 503 None) all_delivered [7], Tick RequestRaised all_delivered [7]]"
        "Response 200 (Some 3000)" 3000 "\<lparr>CHECK_INTERVAL = 300, PRICE_THRESHOLD = 50\<rparr>"
        all_delivered "[7]"]
  by (simp add: initial_state_def)

text \<open>
  C4. When the fetch of an iteration fails, the iteration changes nothing: the last seen
  price, the reference price and the registry are as before, the dispatch is not called
  and nothing is sent; the loop then goes on with the next tick from that same state.
\<close>

theorem fetch_failure_keeps_state:
  assumes "get_eth_price r = None"
  shows "monitor_iteration cfg r ch snapshot s = s
    \<and> run cfg (Tick r ch snapshot # evs) s = run cfg evs s"
  using assms by (simp add: monitor_iteration_failed)

theorem fetch_failure_keeps_state_witness:
  "get_eth_price (Response 429 (Some 3100)) = None
   \<and> monitor_iteration \<lparr>CHECK_INTERVAL = 300, PRICE_THRESHOLD = 50\<rparr>
       (Response 429 (Some 3100)) all_delivered [7]
       (initial_state\<lparr>user_ids := {7}, last_eth_price := Some 3010,
          last_notification_price := Some 3000\<rparr>)
     = initial_state\<lparr>user_ids := {7}, last_eth_price := Some 3010,
          last_notification_price := Some 3000\<rparr>"
  using fetch_failure_keeps_state
    [of "Response 429 (Some 3100)" "\<lparr>CHECK_INTERVAL = 300, PRICE_THRESHOLD = 50\<rparr>"
        all_delivered "[7]"
        "initial_state\<lparr>user_ids := {7}, last_eth_price := Some 3010,
          last_notification_price := Some 3000\<rparr>" "[]"]
  by simp

subsection \<open>The threshold invariant\<close>

lemma monitor_iteration_within:
  assumes "0 < PRICE_THRESHOLD cfg" and "within_threshold cfg s"
  shows "within_threshold cfg (monitor_iteration cfg r ch snapshot s)"
proof (cases "get_eth_price r")
  case None
  with assms(2) show ?thesis by (simp add: monitor_iteration_failed)
next
  case (Some p)
  with assms(1) show ?thesis
    by (simp add: monitor_iteration_def within_threshold_def Let_def split: option.split)
qed

lemma step_within:
  assumes "0 < PRICE_THRESHOLD cfg" and "within_threshold cfg s"
  shows "within_threshold cfg (step cfg ev s)"
proof (cases "fetched ev")
  case None
  from step_command_prices [OF None, of cfg s] assms(2) show ?thesis
    by (simp add: within_threshold_def split: option.splits)
next
  case (Some p)
  then obtain r ch snapshot where "ev = Tick r ch snapshot"
    by (cases ev) simp_all
  with monitor_iteration_within [OF assms] show ?thesis by simp
qed

lemma run_within:
  "0 < PRICE_THRESHOLD cfg \<Longrightarrow> within_threshold cfg s \<Longrightarrow> within_threshold cfg (run cfg evs s)"
  by (induction evs arbitrary: s) (simp_all add: step_within)

text \<open>
  C5, as stated, for every configured threshold: false. With the threshold configured as
  0, the first successful fetch (3000) sets both prices to 3000 without a notification,
  and \<open>abs(3000 - 3000) < 0\<close> does not hold.
\<close>

theorem threshold_invariant_counterexample:
  "last_notification_price
     (run \<lparr>CHECK_INTERVAL = 300, PRICE_THRESHOLD = 0\<rparr>
        [Tick (Response 200 (Some 3000)) all_delivered []] initial_state) = Some 3000
   \<and> last_eth_price
     (run \<lparr>CHECK_INTERVAL = 300, PRICE_THRESHOLD = 0\<rparr>
        [Tick (Response 200 (Some 3000)) all_delivered []] initial_state) = Some 3000
   \<and> dispatched
     (run \<lparr>CHECK_INTERVAL = 300, PRICE_THRESHOLD = 0\<rparr>
        [Tick (Response 200 (Some 3000)) all_delivered []] initial_state) = []
   \<and> outbox
     (run \<lparr>CHECK_INTERVAL = 300, PRICE_THRESHOLD = 0\<rparr>
        [Tick (Response 200 (Some 3000)) all_delivered []] initial_state) = []
   \<and> \<not> \<bar>3000 - 3000\<bar> < PRICE_THRESHOLD \<lparr>CHECK_INTERVAL = 300, PRICE_THRESHOLD = 0\<rparr>
   \<and> \<not> within_threshold \<lparr>CHECK_INTERVAL = 300, PRICE_THRESHOLD = 0\<rparr>
     (run \<lparr>CHECK_INTERVAL = 300, PRICE_THRESHOLD = 0\<rparr>
        [Tick (Response 200 (Some 3000)) all_delivered []] initial_state)"
  by (simp add: monitor_iteration_def initial_state_def within_threshold_def)

text \<open>
  C5, amended: for every finite configured threshold greater than 0, and as long as every
  price fetched so far is a finite number (neither \<open>inf\<close> nor \<open>nan\<close>), in every state
  the bot reaches from its initial state, by any sequence of ticks and commands, in which
  the reference price is set, the last seen price is set too and
  \<open>abs(lastSeenPrice - referencePrice) < threshold\<close>. This holds after every completed
  iteration, so in particular after every iteration that sent no notification.

  The restriction to finite prices is that of the model, and it is needed: the code stores
  a fetched \<open>nan\<close> like any other price, as the reference when none is set and as the
  last seen price in every case, without a notification since \<open>abs(nan - p) >= threshold\<close>
  is false, and \<open>abs(nan - p) < threshold\<close> is false as well.
\<close>

theorem threshold_invariant:
  assumes "0 < PRICE_THRESHOLD cfg"
    and "last_notification_price (run cfg evs initial_state) = Some reference"
  shows "\<exists>seen. last_eth_price (run cfg evs initial_state) = Some seen
    \<and> \<bar>seen - reference\<bar> < PRICE_THRESHOLD cfg"
proof -
  have "within_threshold cfg initial_state"
    by (simp add: within_threshold_def initial_state_def)
  from run_within [OF assms(1) this, of evs] assms(2) show ?thesis
    by (simp add: within_threshold_def split: option.splits)
qed

theorem threshold_invariant_witness:
  "last_notification_price (run \<lparr>CHECK_INTERVAL = 300, PRICE_THRESHOLD = 50\<rparr>
      [Tick (Response 200 (Some 3000)) all_delivered [],
       Tick (Response 200 (Some 3010)) all_delivered []] initial_state) = Some 3000
   \<and> (\<exists>seen. last_eth_price (run \<lparr>CHECK_INTERVAL = 300, PRICE_THRESHOLD = 50\<rparr>
      [Tick (Response 200 (Some 3000)) all_delivered [],
       Tick (Response 200 (Some 3010)) all_delivered []] initial_state) = Some seen
     \<and> \<bar>seen - 3000\<bar> < PRICE_THRESHOLD \<lparr>CHECK_INTERVAL = 300, PRICE_THRESHOLD = 50\<rparr>)"
proof -
  have ref: "last_notification_price (run \<lparr>CHECK_INTERVAL = 300, PRICE_THRESHOLD = 50\<rparr>
      [Tick (Response 200 (Some 3000)) all_delivered [],
       Tick (Response 200 (Some 3010)) all_delivered []] initial_state) = Some 3000"
    by (simp add: monitor_iteration_def initial_state_def)
  have pos: "0 < PRICE_THRESHOLD \<lparr>CHECK_INTERVAL = 300, PRICE_THRESHOLD = 50\<rparr>"
    by simp
  from threshold_invariant [OF pos ref] ref show ?thesis
    by blast
qed

subsection \<open>The subscriber registry\<close>

text \<open>
  C6. \<open>/start\<close> from a sender who is subscribed and \<open>/stop\<close> from a sender who is not
  leave the registry, and the whole state, as they were, and each handler still gets to
  its answer; doing either command twice is the same as doing it once.
\<close>

theorem subscribe_unsubscribe_idempotent:
  "(a \<in> user_ids s \<longrightarrow>
      user_ids (snd (start_handler a s)) = user_ids s \<and> start_handler a s = (Welcome, s))
   \<and> (b \<notin> user_ids s \<longrightarrow>
      user_ids (snd (stop_handler b s)) = user_ids s \<and> stop_handler b s = (Unsubscribed, s))
   \<and> start_handler c (snd (start_handler c s)) = start_handler c s
   \<and> stop_handler c (snd (stop_handler c s)) = stop_handler c s"
  by (simp add: start_handler_def stop_handler_def insert_absorb)

theorem subscribe_unsubscribe_idempotent_witness:
  "7 \<in> user_ids (initial_state\<lparr>user_ids := {7}\<rparr>)
   \<and> 8 \<notin> user_ids (initial_state\<lparr>user_ids := {7}\<rparr>)
   \<and> start_handler 7 (initial_state\<lparr>user_ids := {7}\<rparr>)
       = (Welcome, initial_state\<lparr>user_ids := {7}\<rparr>)
   \<and> stop_handler 8 (initial_state\<lparr>user_ids := {7}\<rparr>)
       = (Unsubscribed, initial_state\<lparr>user_ids := {7}\<rparr>)"
  using subscribe_unsubscribe_idempotent [of 7 "initial_state\<lparr>user_ids := {7}\<rparr>" 8 0]
  by simp

subsection \<open>The /price command\<close>

lemma price_handler_nonzero:
  "get_eth_price r = Some p \<Longrightarrow> p \<noteq> 0 \<Longrightarrow> price_handler r s = (CurrentPrice p, s)"
  by (simp add: price_handler_def)

lemma price_handler_failed:
  "get_eth_price r = None \<Longrightarrow> price_handler r s = (FetchFailed, s)"
  by (simp add: price_handler_def)

text \<open>
  C9. The handler always answers, and on a failed fetch it answers with the failure text;
  but it tests \<open>if current_price:\<close>, so a fetch that succeeds with the price 0.0 is
  answered with the failure text too, not with the price.
\<close>

theorem price_handler_zero_reported_as_failure:
  "get_eth_price (Response 200 (Some 0)) = Some 0
   \<and> price_handler (Response 200 (Some 0)) s = (FetchFailed, s)"
  by (simp add: price_handler_def)

subsection \<open>Fan-out of a notification\<close>

lemma outbox_send_all:
  "outbox (send_all ch m us s) =
     outbox s @ map (\<lambda>u. (u, m)) (filter (\<lambda>u. ch u = Delivered) us)"
proof (induction us arbitrary: s)
  case Nil
  show ?case by simp
next
  case (Cons u us)
  show ?case
    by (cases "ch u") (simp_all add: Cons.IH send_one_def)
qed

lemma user_ids_send_all:
  "user_ids (send_all ch m us s) =
     user_ids s - {u \<in> set us. \<exists>e. ch u = Raised e \<and> bot_was_blocked e}"
proof (induction us arbitrary: s)
  case Nil
  show ?case by simp
next
  case (Cons u us)
  show ?case
    by (cases "ch u") (auto simp add: Cons.IH send_one_def)
qed

lemma count_list_delivered:
  "distinct us \<Longrightarrow>
   count_list (map (\<lambda>u. (u, m)) (filter P us)) (b, m) = (if b \<in> set us \<and> P b then 1 else 0)"
  by (induction us) auto

lemma outbox_send_price_notification:
  "user_ids s \<noteq> {} \<Longrightarrow>
   outbox (send_price_notification ch snapshot price change s) =
     outbox s @ map (\<lambda>u. (u, PriceAlert (change > 0) \<bar>change\<bar> price change))
       (filter (\<lambda>u. ch u = Delivered) snapshot)"
  by (simp add: send_price_notification_def Let_def outbox_send_all)

lemma user_ids_send_price_notification:
  "set snapshot = user_ids s \<Longrightarrow>
   user_ids (send_price_notification ch snapshot price change s) =
     user_ids s - {u \<in> user_ids s. \<exists>e. ch u = Raised e \<and> bot_was_blocked e}"
  by (auto simp add: send_price_notification_def Let_def user_ids_send_all)

text \<open>
  C7. For every snapshot of the registry and distinct recipients \<open>A\<close> and \<open>B\<close> in it: if
  sending to \<open>A\<close> raises an error that is not the blocked signal and sending to \<open>B\<close>
  succeeds, then the call delivers the alert to \<open>B\<close> (exactly once) and \<open>A\<close> is still in
  the registry after the call.
\<close>

theorem fan_out_isolation:
  assumes "snapshot_of snapshot s"
    and "A \<in> user_ids s" and "B \<in> user_ids s" and "A \<noteq> B"
    and "ch A = Raised e" and "\<not> bot_was_blocked e"
    and "ch B = Delivered"
  shows "count_list (outbox (send_price_notification ch snapshot price change s))
           (B, PriceAlert (change > 0) \<bar>change\<bar> price change)
         = count_list (outbox s) (B, PriceAlert (change > 0) \<bar>change\<bar> price change) + 1
    \<and> A \<in> user_ids (send_price_notification ch snapshot price change s)"
proof -
  from assms(1) have snap: "distinct snapshot" "set snapshot = user_ids s"
    by (simp_all add: snapshot_of_def)
  from assms(2) have "user_ids s \<noteq> {}" by blast
  then have "count_list (outbox (send_price_notification ch snapshot price change s))
           (B, PriceAlert (change > 0) \<bar>change\<bar> price change)
         = count_list (outbox s) (B, PriceAlert (change > 0) \<bar>change\<bar> price change) + 1"
    using snap assms(3,7)
    by (simp add: outbox_send_price_notification count_list_delivered)
  moreover have "A \<in> user_ids (send_price_notification ch snapshot price change s)"
    using assms(2,5,6) by (simp add: user_ids_send_price_notification [OF snap(2)])
  ultimately show ?thesis by simp
qed

theorem fan_out_isolation_witness:
  "snapshot_of [3, 2] (initial_state\<lparr>user_ids := {2, 3}\<rparr>)
   \<and> flaky 2 = Raised ''Request timeout error''
   \<and> \<not> bot_was_blocked ''Request timeout error''
   \<and> flaky 3 = Delivered
   \<and> count_list (outbox (send_price_notification flaky [3, 2] 3060 60
        (initial_state\<lparr>user_ids := {2, 3}\<rparr>))) (3, PriceAlert True 60 3060 60) = 1
   \<and> 2 \<in> user_ids (send_price_notification flaky [3, 2] 3060 60
        (initial_state\<lparr>user_ids := {2, 3}\<rparr>))"
proof -
  have snap: "snapshot_of [3, 2] (initial_state\<lparr>user_ids := {2, 3}\<rparr>)"
    by (auto simp add: snapshot_of_def)
  have a: "flaky 2 = Raised ''Request timeout error''" and b: "flaky 3 = Delivered"
    by (simp_all add: flaky_def)
  have transient: "\<not> bot_was_blocked ''Request timeout error''"
    by (simp add: bot_was_blocked_def lower_def lower_char_def)
  from fan_out_isolation [OF snap _ _ _ a transient b, of 3060 60] snap a b transient
  show ?thesis
    by (simp add: initial_state_def)
qed

text \<open>
  C8. For every snapshot of the registry and every recipient \<open>A\<close> in it, \<open>A\<close> is absent from
  the registry after the call exactly when sending to \<open>A\<close> raised the blocked signal (an
  error whose text, in lower case, contains \<open>bot was blocked\<close>). So a blocked recipient
  is evicted, and a recipient whose delivery failed in any other way, or succeeded, stays.
\<close>

theorem eviction_iff_blocked:
  assumes "snapshot_of snapshot s" and "A \<in> user_ids s"
  shows "A \<notin> user_ids (send_price_notification ch snapshot price change s)
    \<longleftrightarrow> (\<exists>e. ch A = Raised e \<and> bot_was_blocked e)"
proof -
  from assms(1) have "set snapshot = user_ids s"
    by (simp add: snapshot_of_def)
  from user_ids_send_price_notification [OF this] assms(2) show ?thesis
    by simp
qed

theorem eviction_iff_blocked_witness:
  "snapshot_of [2, 1, 3] (initial_state\<lparr>user_ids := {1, 2, 3}\<rparr>)
   \<and> bot_was_blocked ''Forbidden: Bot was blocked by the user''
   \<and> 1 \<notin> user_ids (send_price_notification flaky [2, 1, 3] 3060 60
        (initial_state\<lparr>user_ids := {1, 2, 3}\<rparr>))
   \<and> 2 \<in> user_ids (send_price_notification flaky [2, 1, 3] 3060 60
        (initial_state\<lparr>user_ids := {1, 2, 3}\<rparr>))"
proof -
  have snap: "snapshot_of [2, 1, 3] (initial_state\<lparr>user_ids := {1, 2, 3}\<rparr>)"
    by (auto simp add: snapshot_of_def)
  have blocked: "bot_was_blocked ''Forbidden: Bot was blocked by the user''"
    by (simp add: bot_was_blocked_def lower_def lower_char_def)
  have transient: "\<not> bot_was_blocked ''Request timeout error''"
    by (simp add: bot_was_blocked_def lower_def lower_char_def)
  from eviction_iff_blocked [OF snap, of 1 flaky 3060 60]
       eviction_iff_blocked [OF snap, of 2 flaky 3060 60] snap blocked transient
  show ?thesis
    by (simp add: flaky_def)
qed

subsection \<open>A price of zero\<close>

text \<open>
  C10. The monitor loop tests \<open>current_price is None\<close>, so a fetched price of 0.0 is a
  price like any other: \<open>get_eth_price\<close> returns it; with no reference price it becomes
  the reference; with a reference price \<open>p1\<close> it is compared against the threshold
  (notifying with change \<open>0 - p1\<close> and becoming the reference when the move is large
  enough, leaving the reference otherwise); and in every case it becomes the last seen
  price.
\<close>

theorem zero_price_is_valid:
  "get_eth_price (Response 200 (Some 0)) = Some 0
   \<and> (last_notification_price s0 = None \<longrightarrow>
        monitor_iteration cfg (Response 200 (Some 0)) ch snapshot s0
          = s0\<lparr>last_notification_price := Some 0, last_eth_price := Some 0\<rparr>)
   \<and> (last_notification_price s1 = Some p1 \<and> \<bar>0 - p1\<bar> \<ge> PRICE_THRESHOLD cfg \<longrightarrow>
        dispatched (monitor_iteration cfg (Response 200 (Some 0)) ch snapshot s1)
          = dispatched s1 @ [(0, 0 - p1)]
        \<and> last_notification_price (monitor_iteration cfg (Response 200 (Some 0)) ch snapshot s1)
          = Some 0
        \<and> last_eth_price (monitor_iteration cfg (Response 200 (Some 0)) ch snapshot s1)
          = Some 0)
   \<and> (last_notification_price s2 = Some p2 \<and> \<bar>0 - p2\<bar> < PRICE_THRESHOLD cfg \<longrightarrow>
        monitor_iteration cfg (Response 200 (Some 0)) ch snapshot s2
          = s2\<lparr>last_eth_price := Some 0\<rparr>)"
  by (simp add: monitor_iteration_def Let_def)

theorem zero_price_is_valid_witness:
  "monitor_iteration \<lparr>CHECK_INTERVAL = 300, PRICE_THRESHOLD = 50\<rparr>
       (Response 200 (Some 0)) all_delivered [] initial_state
     = initial_state\<lparr>last_notification_price := Some 0, last_eth_price := Some 0\<rparr>
   \<and> dispatched (monitor_iteration \<lparr>CHECK_INTERVAL = 300, PRICE_THRESHOLD = 50\<rparr>
       (Response 200 (Some 0)) all_delivered []
       (initial_state\<lparr>last_notification_price := Some 60\<rparr>)) = [(0, - 60)]
   \<and> last_notification_price (monitor_iteration \<lparr>CHECK_INTERVAL = 300, PRICE_THRESHOLD = 50\<rparr>
       (Response 200 (Some 0)) all_delivered []
       (initial_state\<lparr>last_notification_price := Some 60\<rparr>)) = Some 0
   \<and> monitor_iteration \<lparr>CHECK_INTERVAL = 300, PRICE_THRESHOLD = 50\<rparr>
       (Response 200 (Some 0)) all_delivered []
       (initial_state\<lparr>last_notification_price := Some 10\<rparr>)
     = initial_state\<lparr>last_notification_price := Some 10, last_eth_price := Some 0\<rparr>"
  using zero_price_is_valid
    [of initial_state "\<lparr>CHECK_INTERVAL = 300, PRICE_THRESHOLD = 50\<rparr>" all_delivered "[]"
        "initial_state\<lparr>last_notification_price := Some 60\<rparr>" 60
        "initial_state\<lparr>last_notification_price := Some 10\<rparr>" 10]
  by (simp add: initial_state_def)

end
